theory Spec2Isabelle
  imports Main "HOL-Library.Sublist"
begin

section \<open>rovnoui: a shallow embedding of the widget toolkit\<close>

text \<open>
  The theory follows \<^verbatim>\<open>rovnoui/__init__.py\<close>. A Python \<^verbatim>\<open>str\<close> is a
  \<^typ>\<open>string\<close>, one \<^typ>\<open>char\<close> standing for one character of the Python string, so
  that \<^const>\<open>length\<close> is Python's \<^verbatim>\<open>len\<close>. A Python \<^verbatim>\<open>int\<close> is an
  \<^typ>\<open>int\<close>. An exception that leaves a method is a value of \<open>py_error\<close>.
\<close>

datatype py_error =
  AttributeError | IndexError | KeyError | TypeError | ValueError
  | NotImplementedError | UnsupportedOperation | EOFError | MarkupError | MissingStyle

text \<open>
  The exceptions by which Python reports that an operation is not supported where it is
  called: \<^verbatim>\<open>NotImplementedError\<close> and \<^verbatim>\<open>io.UnsupportedOperation\<close>.
\<close>

definition reports_unsupported_operation :: "py_error \<Rightarrow> bool" where
  "reports_unsupported_operation e = (e = NotImplementedError \<or> e = UnsupportedOperation)"

subsection \<open>What the widgets write\<close>

text \<open>
  Rich's console, the built-in \<^verbatim>\<open>print\<close> and \<^verbatim>\<open>os.system\<close> are outside the
  package. A method's output is the list of calls it makes to them, in order:
  \<^item> \<open>ConsolePrint t s h\<close> is \<^verbatim>\<open>Console.print(t, style=s, highlight=h)\<close>
    (\<open>None\<close> where the keyword is not passed);
  \<^item> \<open>ConsoleInput p\<close> is the prompt \<^verbatim>\<open>Console.input(p)\<close> writes before it reads;
  \<^item> \<open>StdoutWrite t\<close> is \<^verbatim>\<open>print(t, end='')\<close>;
  \<^item> \<open>System c\<close> is \<^verbatim>\<open>os.system(c)\<close>.
\<close>

datatype out =
  ConsolePrint string "string option" "bool option"
  | ConsoleInput string
  | StdoutWrite string
  | System string

text \<open>
  A method that prints and may raise returns what it wrote before it returned or raised,
  and the exception if there was one.
\<close>

type_synonym printed = "out list \<times> py_error option"

text \<open>
  Rich reads the text it is given as markup and the style as a style definition, and
  raises where it cannot (\<^verbatim>\<open>MarkupError\<close> for a closing tag that closes nothing, as in
  \<^verbatim>\<open>a[/]\<close>; \<^verbatim>\<open>MissingStyle\<close> for a style it cannot parse), writing nothing of
  that call. Which calls it refuses is Rich's business: the console is a parameter, the
  function that gives for each call the exception it raises, or \<open>None\<close> when it writes.
  \<open>emit\<close> is one call on the console, \<open>then_print\<close> runs a second piece of printing
  unless the first has raised, and \<open>emit_all\<close> is a loop of calls, left at the first
  that raises.
\<close>

type_synonym console = "out \<Rightarrow> py_error option"

definition emit :: "console \<Rightarrow> out \<Rightarrow> printed" where
  "emit con call = (case con call of None \<Rightarrow> ([call], None) | Some e \<Rightarrow> ([], Some e))"

definition then_print :: "printed \<Rightarrow> printed \<Rightarrow> printed" where
  "then_print p q =
     (case p of
        (written, Some e) \<Rightarrow> (written, Some e)
      | (written, None) \<Rightarrow> (written @ fst q, snd q))"

fun emit_all :: "console \<Rightarrow> out list \<Rightarrow> printed" where
  "emit_all con [] = ([], None)"
| "emit_all con (call # rest) = then_print (emit con call) (emit_all con rest)"

text \<open>
  For runs on concrete values: the console that raises \<^verbatim>\<open>MarkupError\<close> on the texts
  and prompts of the list \<open>bad\<close> and writes every other.
\<close>

definition console_refusing :: "string list \<Rightarrow> console" where
  "console_refusing bad call =
     (case call of
        ConsolePrint t s h \<Rightarrow> if t \<in> set bad then Some MarkupError else None
      | ConsoleInput p \<Rightarrow> if p \<in> set bad then Some MarkupError else None
      | StdoutWrite t \<Rightarrow> None
      | System c \<Rightarrow> None)"

subsection \<open>Python primitives used by the widgets\<close>

text \<open>
  \<^verbatim>\<open>s * n\<close> repeats a string; a count below one gives the empty string.
\<close>

definition py_str_mul :: "string \<Rightarrow> int \<Rightarrow> string" where
  "py_str_mul s n = concat (replicate (nat n) s)"

text \<open>
  \<^verbatim>\<open>xs[:k]\<close>: a negative \<open>k\<close> counts from the end, and the bound is clipped
  to the range of the sequence on both sides.
\<close>

definition py_slice_to :: "'a list \<Rightarrow> int \<Rightarrow> 'a list" where
  "py_slice_to xs k =
     (if k < 0 then take (nat (int (length xs) + k)) xs else take (nat k) xs)"

text \<open>\<^verbatim>\<open>str(n)\<close> of an integer, as an f-string field \<^verbatim>\<open>{n}\<close> formats it.\<close>

fun py_str_nat :: "nat \<Rightarrow> string" where
  "py_str_nat n =
     (if n < 10 then [''0123456789'' ! n]
      else py_str_nat (n div 10) @ [''0123456789'' ! (n mod 10)])"

declare py_str_nat.simps [simp del]

definition py_str_int :: "int \<Rightarrow> string" where
  "py_str_int i = (if i < 0 then CHR ''-'' # py_str_nat (nat (- i)) else py_str_nat (nat i))"

text \<open>
  A \<^verbatim>\<open>dict\<close> of strings is the list of its items in insertion order.
  \<^verbatim>\<open>d.keys()\<close> lists the keys in that order and \<^verbatim>\<open>d[k]\<close> raises
  \<^verbatim>\<open>KeyError\<close> for a key that is absent. The keys of a dict are distinct
  (\<open>dict_wf\<close>).
\<close>

type_synonym py_dict = "(string \<times> string) list"

definition dict_wf :: "py_dict \<Rightarrow> bool" where
  "dict_wf d = distinct (map fst d)"

definition dict_keys :: "py_dict \<Rightarrow> string list" where
  "dict_keys d = map fst d"

definition dict_values :: "py_dict \<Rightarrow> string list" where
  "dict_values d = map snd d"

definition dict_getitem :: "py_dict \<Rightarrow> string \<Rightarrow> py_error + string" where
  "dict_getitem d k = (case map_of d k of None \<Rightarrow> Inl KeyError | Some v \<Rightarrow> Inr v)"

text \<open>
  \<^verbatim>\<open>int(s)\<close> of a string, base ten: whitespace around the literal is dropped, one sign
  may lead, and the digits may be separated by single underscores. \<open>None\<close> stands for
  \<^verbatim>\<open>ValueError\<close>. The interpreter refuses a literal of more than
  \<^verbatim>\<open>sys.get_int_max_str_digits()\<close> digits (\<open>maxd\<close>; zero switches the limit off, and
  no limit applies up to 640 digits).
\<close>

definition py_isspace :: "char \<Rightarrow> bool" where
  "py_isspace c = (of_char c \<in> {9, 10, 11, 12, 13, 32, 133, 160 :: nat})"

definition py_isdigit :: "char \<Rightarrow> bool" where
  "py_isdigit c = (48 \<le> (of_char c :: nat) \<and> (of_char c :: nat) \<le> 57)"

definition py_digit_value :: "char \<Rightarrow> nat" where
  "py_digit_value c = of_char c - 48"

definition py_strip :: "string \<Rightarrow> string" where
  "py_strip s = rev (dropWhile py_isspace (rev (dropWhile py_isspace s)))"

fun py_int_digits :: "nat \<Rightarrow> string \<Rightarrow> nat option" where
  "py_int_digits acc [] = Some acc"
| "py_int_digits acc [c] =
     (if py_isdigit c then Some (10 * acc + py_digit_value c) else None)"
| "py_int_digits acc (c # d # cs) =
     (if py_isdigit c then py_int_digits (10 * acc + py_digit_value c) (d # cs)
      else if c = CHR ''_'' \<and> py_isdigit d then py_int_digits acc (d # cs)
      else None)"

definition py_int_unsigned :: "nat \<Rightarrow> string \<Rightarrow> nat option" where
  "py_int_unsigned maxd s =
     (case s of
        [] \<Rightarrow> None
      | c # _ \<Rightarrow>
          if \<not> py_isdigit c then None
          else if 0 < maxd \<and> 640 < length (filter py_isdigit s)
                  \<and> maxd < length (filter py_isdigit s) then None
          else py_int_digits 0 s)"

definition py_int :: "nat \<Rightarrow> string \<Rightarrow> int option" where
  "py_int maxd s =
     (case py_strip s of
        [] \<Rightarrow> None
      | c # cs \<Rightarrow>
          if c = CHR ''-'' then map_option (\<lambda>n. - int n) (py_int_unsigned maxd cs)
          else if c = CHR ''+'' then map_option int (py_int_unsigned maxd cs)
          else map_option int (py_int_unsigned maxd (c # cs)))"

text \<open>
  The values \<^verbatim>\<open>Selector.ask\<close> returns: an \<^verbatim>\<open>int\<close> or a \<^verbatim>\<open>bool\<close>.
  \<^verbatim>\<open>bool\<close> is a subclass of \<^verbatim>\<open>int\<close>: \<open>py_index\<close> is the integer a value
  stands for, \<open>py_eq\<close> is \<^verbatim>\<open>==\<close>, \<open>py_truthy\<close> is the truth value \<^verbatim>\<open>if v:\<close>
  tests, \<open>py_isinstance_int\<close> is \<^verbatim>\<open>isinstance(v, int)\<close> and \<open>py_is_False\<close> is
  \<^verbatim>\<open>v is False\<close>.
\<close>

datatype py_value = PyInt int | PyBool bool

fun py_index :: "py_value \<Rightarrow> int" where
  "py_index (PyInt i) = i"
| "py_index (PyBool b) = (if b then 1 else 0)"

definition py_eq :: "py_value \<Rightarrow> py_value \<Rightarrow> bool" where
  "py_eq a b = (py_index a = py_index b)"

definition py_truthy :: "py_value \<Rightarrow> bool" where
  "py_truthy v = (py_index v \<noteq> 0)"

fun py_isinstance_int :: "py_value \<Rightarrow> bool" where
  "py_isinstance_int (PyInt i) = True"
| "py_isinstance_int (PyBool b) = True"

fun py_is_False :: "py_value \<Rightarrow> bool" where
  "py_is_False (PyInt i) = False"
| "py_is_False (PyBool b) = (\<not> b)"

subsection \<open>Header\<close>

record Header =
  h_text :: string
  h_style :: string

definition Header_print :: "console \<Rightarrow> Header \<Rightarrow> printed" where
  "Header_print con self =
     emit con (ConsolePrint ('' '' @ h_text self @ '' '') (Some (h_style self)) (Some False))"

text \<open>
  The widgets with an optional header start their \<^verbatim>\<open>print\<close> with
  \<^verbatim>\<open>if type(self.header) == Header: self.header.print()\<close>.
\<close>

definition print_header :: "console \<Rightarrow> Header option \<Rightarrow> printed" where
  "print_header con header =
     (case header of None \<Rightarrow> ([], None) | Some h \<Rightarrow> Header_print con h)"

subsection \<open>ScrollingTextBox\<close>

record ScrollingTextBox =
  stb_line_buffer :: "string list"
  stb_limit :: int

text \<open>\<^verbatim>\<open>['' for i in range(limit)]\<close>: the range of a limit below one is empty.\<close>

definition ScrollingTextBox_init :: "int \<Rightarrow> ScrollingTextBox" where
  "ScrollingTextBox_init limit =
     \<lparr>stb_line_buffer = replicate (nat limit) [], stb_limit = limit\<rparr>"

text \<open>
  \<^verbatim>\<open>print(text)\<close> gives the box as the call leaves it, whether it returns or raises,
  with what it has printed and the exception if it raised. \<^verbatim>\<open>pop(0)\<close> of an empty
  list raises \<^verbatim>\<open>IndexError\<close>, before anything is changed or printed; an exception of
  the console comes after the buffer has been changed.
\<close>

definition ScrollingTextBox_print ::
  "console \<Rightarrow> ScrollingTextBox \<Rightarrow> string \<Rightarrow> ScrollingTextBox \<times> printed" where
  "ScrollingTextBox_print con self text =
     (case (if stb_limit self \<le> int (length (stb_line_buffer self)) then
              (case stb_line_buffer self of
                 [] \<Rightarrow> Inl IndexError
               | oldest # rest \<Rightarrow> Inr rest)
            else Inr (stb_line_buffer self)) of
        Inl e \<Rightarrow> (self, ([], Some e))
      | Inr kept \<Rightarrow>
          (self\<lparr>stb_line_buffer := kept @ [text]\<rparr>,
           emit_all con (map (\<lambda>line. ConsolePrint line None (Some False)) (kept @ [text]))))"

text \<open>
  A run of calls of \<^verbatim>\<open>print\<close> on one box, one per text, by a caller that goes on
  after a call that raised: the box after the last call, and the result of each call.
\<close>

fun ScrollingTextBox_prints ::
  "console \<Rightarrow> ScrollingTextBox \<Rightarrow> string list \<Rightarrow> ScrollingTextBox \<times> printed list" where
  "ScrollingTextBox_prints con self [] = (self, [])"
| "ScrollingTextBox_prints con self (text # texts) =
     (case ScrollingTextBox_print con self text of
        (self', r) \<Rightarrow>
          (case ScrollingTextBox_prints con self' texts of
             (self'', rs) \<Rightarrow> (self'', r # rs)))"

subsection \<open>DataFrame\<close>

record DataFrame =
  df_data :: "string list"
  df_header :: "Header option"
  df_colors :: "string list"

definition DataFrame_line :: "string \<times> string \<Rightarrow> out" where
  "DataFrame_line = (\<lambda>(text, color).
     ConsolePrint (''['' @ color @ '']+[/'' @ color @ ''] '' @ text) None (Some False))"

definition DataFrame_print :: "console \<Rightarrow> DataFrame \<Rightarrow> printed" where
  "DataFrame_print con self =
     then_print (print_header con (df_header self))
       (emit_all con (map DataFrame_line (zip (df_data self) (df_colors self))))"

text \<open>The data lines of a frame: what \<^verbatim>\<open>print\<close> writes after the header.\<close>

definition DataFrame_data_lines :: "console \<Rightarrow> DataFrame \<Rightarrow> out list" where
  "DataFrame_data_lines con self =
     drop (length (fst (print_header con (df_header self)))) (fst (DataFrame_print con self))"

subsection \<open>Selector\<close>

record Selector =
  sel_header :: "Header option"
  sel_choices :: "py_dict list"
  sel_style :: string

definition Selector_label :: "int \<Rightarrow> string \<Rightarrow> out" where
  "Selector_label i key =
     ConsolePrint (''[b]'' @ py_str_int i @ ''. '' @ key @ ''[/]'') None (Some False)"

definition Selector_description :: "string \<Rightarrow> out" where
  "Selector_description v = ConsolePrint (''   '' @ v) None (Some False)"

text \<open>
  The inner loop, over the keys of one choice, and the outer loop, over the choices.
  Both carry the counter \<^verbatim>\<open>_i\<close> and return it with what was printed. An exception
  leaves both loops.
\<close>

fun Selector_print_keys ::
  "console \<Rightarrow> py_dict \<Rightarrow> string list \<Rightarrow> int \<Rightarrow> printed \<times> int" where
  "Selector_print_keys con choice [] i = (([], None), i)"
| "Selector_print_keys con choice (key # keys) i =
     (case emit con (Selector_label i key) of
        (written, Some e) \<Rightarrow> ((written, Some e), i)
      | (written, None) \<Rightarrow>
          (case dict_getitem choice key of
             Inl e \<Rightarrow> ((written, Some e), i)
           | Inr v \<Rightarrow>
               (case emit con (Selector_description v) of
                  (written', Some e) \<Rightarrow> ((written @ written', Some e), i)
                | (written', None) \<Rightarrow>
                    (case Selector_print_keys con choice keys (i + 1) of
                       ((printed, r), i') \<Rightarrow> ((written @ written' @ printed, r), i')))))"

fun Selector_print_choices :: "console \<Rightarrow> py_dict list \<Rightarrow> int \<Rightarrow> printed \<times> int" where
  "Selector_print_choices con [] i = (([], None), i)"
| "Selector_print_choices con (choice # choices) i =
     (case Selector_print_keys con choice (dict_keys choice) i of
        ((printed, Some e), i') \<Rightarrow> ((printed, Some e), i')
      | ((printed, None), i') \<Rightarrow>
          (case Selector_print_choices con choices i' of
             ((printed', r), i'') \<Rightarrow> ((printed @ printed', r), i'')))"

definition Selector_print :: "console \<Rightarrow> Selector \<Rightarrow> printed" where
  "Selector_print con self =
     then_print (print_header con (sel_header self))
       (fst (Selector_print_choices con (sel_choices self) 1))"

text \<open>
  What happens at the prompt of \<^verbatim>\<open>Console.input\<close> once it is written: a line is
  entered, the user interrupts (\<^verbatim>\<open>KeyboardInterrupt\<close>), or the input ends
  (\<^verbatim>\<open>EOFError\<close>). \<^verbatim>\<open>self.print()\<close> is outside the \<^verbatim>\<open>try\<close>, and the
  \<^verbatim>\<open>except\<close> clause catches \<^verbatim>\<open>KeyboardInterrupt\<close> alone: an exception of the
  console, for the listing or for the prompt, leaves \<^verbatim>\<open>ask\<close> before anything is read.
\<close>

datatype keyboard = Entered string | Interrupt | EndOfInput

definition Selector_ask ::
  "nat \<Rightarrow> console \<Rightarrow> Selector \<Rightarrow> bool \<Rightarrow> keyboard
    \<Rightarrow> out list \<times> (py_error + py_value)" where
  "Selector_ask maxd con self print kb =
     (case (if print then Selector_print con self else ([], None)) of
        (printed, Some e) \<Rightarrow> (printed, Inl e)
      | (printed, None) \<Rightarrow>
          (case emit con (ConsoleInput (''[b]['' @ sel_style self @ '']+[/][/] '')) of
             (prompt, Some e) \<Rightarrow> (printed @ prompt, Inl e)
           | (prompt, None) \<Rightarrow>
               (printed @ prompt,
                case kb of
                  Entered line \<Rightarrow>
                    (case py_int maxd line of
                       None \<Rightarrow> Inl ValueError
                     | Some n \<Rightarrow> Inr (PyInt n))
                | Interrupt \<Rightarrow> Inr (PyBool False)
                | EndOfInput \<Rightarrow> Inl EOFError)))"

subsection \<open>InfoFrame\<close>

record InfoFrame =
  if_header :: "Header option"
  if_data :: "py_dict list"

text \<open>
  \<^verbatim>\<open>list(entry.keys())[0]\<close> raises \<^verbatim>\<open>IndexError\<close> for an empty entry, before
  anything of the entry is printed.
\<close>

fun InfoFrame_print_entries :: "console \<Rightarrow> py_dict list \<Rightarrow> printed" where
  "InfoFrame_print_entries con [] = ([], None)"
| "InfoFrame_print_entries con (entry # entries) =
     (case dict_keys entry of
        [] \<Rightarrow> ([], Some IndexError)
      | k # _ \<Rightarrow>
          then_print (emit con (ConsolePrint (''[bold]'' @ k @ ''[/]'') None (Some False)))
            (case dict_values entry of
               [] \<Rightarrow> ([], Some IndexError)
             | v # _ \<Rightarrow>
                 then_print (emit con (ConsolePrint v None (Some False)))
                   (InfoFrame_print_entries con entries)))"

definition InfoFrame_print :: "console \<Rightarrow> InfoFrame \<Rightarrow> printed" where
  "InfoFrame_print con self =
     then_print (print_header con (if_header self))
       (InfoFrame_print_entries con (if_data self))"

subsection \<open>FixedLabel\<close>

record FixedLabel =
  fl_text :: string
  fl_limit :: int

definition FixedLabel_construct :: "FixedLabel \<Rightarrow> string" where
  "FixedLabel_construct self =
     (let text_length = int (length (fl_text self)) in
      if text_length < fl_limit self then
        fl_text self @ py_str_mul '' '' (fl_limit self - text_length)
      else if text_length = fl_limit self then fl_text self
      else py_slice_to (fl_text self) (fl_limit self - 3) @ ''...'')"

definition FixedLabel_print :: "console \<Rightarrow> FixedLabel \<Rightarrow> printed" where
  "FixedLabel_print con self = emit con (ConsolePrint (FixedLabel_construct self) None None)"

subsection \<open>Widgets\<close>

text \<open>
  The objects of a layout. \<^verbatim>\<open>widget.print()\<close> dispatches on the class. The base
  class's \<^verbatim>\<open>print\<close> is decorated with \<^verbatim>\<open>typing.overload\<close>, whose result raises
  \<^verbatim>\<open>NotImplementedError\<close> when called; \<^verbatim>\<open>ScrollingTextBox.print\<close> has a required
  parameter, so the call without it raises \<^verbatim>\<open>TypeError\<close>.
\<close>

datatype widget =
  Widget
  | WHeader Header
  | WScrollingTextBox ScrollingTextBox
  | WDataFrame DataFrame
  | WSelector Selector
  | WInfoFrame InfoFrame
  | WFixedLabel FixedLabel

fun Widget_print :: "console \<Rightarrow> widget \<Rightarrow> printed" where
  "Widget_print con Widget = ([], Some NotImplementedError)"
| "Widget_print con (WHeader h) = Header_print con h"
| "Widget_print con (WScrollingTextBox b) = ([], Some TypeError)"
| "Widget_print con (WDataFrame d) = DataFrame_print con d"
| "Widget_print con (WSelector s) = Selector_print con s"
| "Widget_print con (WInfoFrame f) = InfoFrame_print con f"
| "Widget_print con (WFixedLabel l) = FixedLabel_print con l"

subsection \<open>The platform\<close>

text \<open>
  \<^verbatim>\<open>ctypes.windll\<close> exists on Windows only: elsewhere the attribute is missing and
  reading it raises \<^verbatim>\<open>AttributeError\<close>. The three functions of
  \<^verbatim>\<open>kernel32\<close> that the package calls are foreign code and are taken as given, over a
  console state \<open>'k\<close> of the operating system: \<open>GetConsoleCursorInfo\<close> gives the
  structure it leaves behind the pointer it is passed, \<open>SetConsoleCursorInfo\<close> the
  console it leaves. Their return values are dropped by the package.
  \<open>oprsys\<close> is the result of \<^verbatim>\<open>platform.system()\<close>.
\<close>

record CursorInfo =
  ci_size :: int
  ci_visible :: bool

record 'k kernel32 =
  GetStdHandle :: "int \<Rightarrow> int"
  GetConsoleCursorInfo :: "'k \<Rightarrow> int \<Rightarrow> CursorInfo \<Rightarrow> CursorInfo"
  SetConsoleCursorInfo :: "'k \<Rightarrow> int \<Rightarrow> CursorInfo \<Rightarrow> 'k"

record 'k platform =
  oprsys :: string
  windll :: "'k kernel32 option"
  console :: 'k

subsection \<open>Screen\<close>

record 'w Screen =
  scr_updates :: int
  scr_layout :: "'w list option"
  scr_widget_separator :: string
  scr_ci :: CursorInfo
  scr_ci_handle :: int

text \<open>
  The constructor's last statement reads \<^verbatim>\<open>ctypes.windll\<close>; when that raises,
  no object is returned.
\<close>

definition Screen_init ::
  "'k platform \<Rightarrow> 'w list option \<Rightarrow> string \<Rightarrow> py_error + 'w Screen" where
  "Screen_init env layout widget_separator =
     (case windll env of
        None \<Rightarrow> Inl AttributeError
      | Some dll \<Rightarrow>
          Inr \<lparr>scr_updates = 0, scr_layout = layout,
               scr_widget_separator = widget_separator,
               scr_ci = \<lparr>ci_size = 0, ci_visible = False\<rparr>,
               scr_ci_handle = GetStdHandle dll (- 11)\<rparr>)"

definition Screen_clear :: "'k platform \<Rightarrow> 'w Screen \<Rightarrow> 'w Screen \<times> out list" where
  "Screen_clear env self =
     (self\<lparr>scr_updates := scr_updates self + 1\<rparr>,
      [if oprsys env = ''Windows'' then System ''cls'' else System ''clear''])"

text \<open>\<^verbatim>\<open>lines\<close> is an \<^verbatim>\<open>int\<close> or a \<^verbatim>\<open>str\<close>; the f-string formats either.\<close>

definition Screen_partial_clear :: "'w Screen \<Rightarrow> int + string \<Rightarrow> 'w Screen \<times> out list" where
  "Screen_partial_clear self lines =
     (self\<lparr>scr_updates := scr_updates self + 1\<rparr>,
      [StdoutWrite (CHR 0x1B # ''['' @ (case lines of Inl n \<Rightarrow> py_str_int n | Inr s \<Rightarrow> s)
                    @ ''A'' @ CHR 0x1B # ''[2K'')])"

definition Screen_hide_cursor ::
  "'k platform \<Rightarrow> 'w Screen \<Rightarrow> py_error + 'k platform \<times> 'w Screen" where
  "Screen_hide_cursor env self =
     (case windll env of
        None \<Rightarrow> Inl AttributeError
      | Some dll \<Rightarrow>
          (let ci = GetConsoleCursorInfo dll (console env) (scr_ci_handle self) (scr_ci self);
               ci = ci\<lparr>ci_visible := False\<rparr>
           in Inr (env\<lparr>console :=
                        SetConsoleCursorInfo dll (console env) (scr_ci_handle self) ci\<rparr>,
                   self\<lparr>scr_ci := ci\<rparr>)))"

definition Screen_show_cursor ::
  "'k platform \<Rightarrow> 'w Screen \<Rightarrow> py_error + 'k platform \<times> 'w Screen" where
  "Screen_show_cursor env self =
     (case windll env of
        None \<Rightarrow> Inl AttributeError
      | Some dll \<Rightarrow>
          (let ci = GetConsoleCursorInfo dll (console env) (scr_ci_handle self) (scr_ci self);
               ci = ci\<lparr>ci_visible := True\<rparr>
           in Inr (env\<lparr>console :=
                        SetConsoleCursorInfo dll (console env) (scr_ci_handle self) ci\<rparr>,
                   self\<lparr>scr_ci := ci\<rparr>)))"

definition Screen_print :: "console \<Rightarrow> 'w Screen \<Rightarrow> string \<Rightarrow> printed" where
  "Screen_print con self text = emit con (ConsolePrint text None (Some False))"

text \<open>
  \<^verbatim>\<open>print_layout\<close> calls \<^verbatim>\<open>widget.print()\<close> on the objects of the layout,
  whatever they are: the method is the parameter \<open>render\<close>. Its trace records each call
  (\<open>Call\<close>) and each thing written (\<open>Out\<close>), in order. Iterating over the default
  layout \<^verbatim>\<open>None\<close> raises \<^verbatim>\<open>TypeError\<close>.
\<close>

datatype 'w event = Call 'w | Out out

fun print_widgets ::
  "('w \<Rightarrow> printed) \<Rightarrow> string \<Rightarrow> 'w list \<Rightarrow> 'w event list \<times> py_error option" where
  "print_widgets render sep [] = ([], None)"
| "print_widgets render sep (widget # widgets) =
     (case render widget of
        (printed, Some e) \<Rightarrow> (Call widget # map Out printed, Some e)
      | (printed, None) \<Rightarrow>
          (case print_widgets render sep widgets of
             (trace, r) \<Rightarrow>
               (Call widget # map Out printed @ Out (StdoutWrite sep) # trace, r)))"

definition Screen_print_layout ::
  "('w \<Rightarrow> printed) \<Rightarrow> 'w Screen \<Rightarrow> 'w event list \<times> py_error option" where
  "Screen_print_layout render self =
     (case scr_layout self of
        None \<Rightarrow> ([], Some TypeError)
      | Some widgets \<Rightarrow> print_widgets render (scr_widget_separator self) widgets)"

text \<open>The calls in a trace.\<close>

fun calls :: "'w event list \<Rightarrow> 'w list" where
  "calls [] = []"
| "calls (Call w # t) = w # calls t"
| "calls (Out x # t) = calls t"

text \<open>
  A caller's \<^verbatim>\<open>op(Screen(layout, widget_separator))\<close>: an exception of the
  constructor leaves the expression before \<open>op\<close> is called.
\<close>

definition with_new_Screen ::
  "'k platform \<Rightarrow> 'w list option \<Rightarrow> string \<Rightarrow> ('w Screen \<Rightarrow> 'a) \<Rightarrow> py_error + 'a" where
  "with_new_Screen env layout widget_separator op =
     (case Screen_init env layout widget_separator of
        Inl e \<Rightarrow> Inl e
      | Inr self \<Rightarrow> Inr (op self))"

section \<open>Properties\<close>

subsection \<open>FixedLabel\<close>

lemma py_str_mul_space: "py_str_mul '' '' n = replicate (nat n) CHR '' ''"
  by (induction "nat n" arbitrary: n)
     (simp_all add: py_str_mul_def replicate_Suc [symmetric] del: replicate_Suc)

lemma FixedLabel_construct_short:
  "int (length (fl_text self)) < fl_limit self \<Longrightarrow>
   FixedLabel_construct self =
     fl_text self @ replicate (nat (fl_limit self - int (length (fl_text self)))) CHR '' ''"
  by (simp add: FixedLabel_construct_def py_str_mul_space)

lemma FixedLabel_construct_exact:
  "int (length (fl_text self)) = fl_limit self \<Longrightarrow> FixedLabel_construct self = fl_text self"
  by (simp add: FixedLabel_construct_def)

lemma FixedLabel_construct_long:
  "fl_limit self < int (length (fl_text self)) \<Longrightarrow>
   FixedLabel_construct self = py_slice_to (fl_text self) (fl_limit self - 3) @ ''...''"
  by (simp add: FixedLabel_construct_def)

text \<open>
  C2. For a limit of at least three, the label \<^verbatim>\<open>_construct\<close> returns has exactly
  \<open>limit\<close> characters. A text of at most \<open>limit\<close> characters is a prefix of it: it is
  followed by spaces up to the limit when it is shorter and returned as it is when its
  length is the limit. A longer text gives a label that ends with three dots and whose
  first \<open>limit - 3\<close> characters are those of the text.
\<close>

theorem FixedLabel_construct_fixed_width:
  assumes "3 \<le> fl_limit self"
  shows "int (length (FixedLabel_construct self)) = fl_limit self \<and>
    (int (length (fl_text self)) \<le> fl_limit self \<longrightarrow>
       prefix (fl_text self) (FixedLabel_construct self) \<and>
       FixedLabel_construct self =
         fl_text self @ replicate (nat (fl_limit self - int (length (fl_text self)))) CHR '' '') \<and>
    (int (length (fl_text self)) = fl_limit self \<longrightarrow> FixedLabel_construct self = fl_text self) \<and>
    (fl_limit self < int (length (fl_text self)) \<longrightarrow>
       suffix ''...'' (FixedLabel_construct self) \<and>
       py_slice_to (FixedLabel_construct self) (fl_limit self - 3) =
         py_slice_to (fl_text self) (fl_limit self - 3))"
proof -
  let ?n = "int (length (fl_text self))"
  consider (short) "?n < fl_limit self" | (exact) "?n = fl_limit self" | (long) "fl_limit self < ?n"
    by linarith
  then show ?thesis
  proof cases
    case short
    then show ?thesis
      by (simp add: FixedLabel_construct_short)
  next
    case exact
    then show ?thesis
      by (simp add: FixedLabel_construct_exact)
  next
    case long
    with assms show ?thesis
      by (simp add: FixedLabel_construct_long py_slice_to_def suffix_def)
  qed
qed

theorem FixedLabel_construct_fixed_width_witness:
  "(3::int) \<le> 8 \<and>
   FixedLabel_construct \<lparr>fl_text = ''hello world'', fl_limit = 8\<rparr> = ''hello...'' \<and>
   int (length (FixedLabel_construct \<lparr>fl_text = ''hello world'', fl_limit = 8\<rparr>)) = 8 \<and>
   suffix ''...'' (FixedLabel_construct \<lparr>fl_text = ''hello world'', fl_limit = 8\<rparr>)"
  using FixedLabel_construct_fixed_width [of "\<lparr>fl_text = ''hello world'', fl_limit = 8\<rparr>"]
  by (simp add: FixedLabel_construct_def py_slice_to_def)

text \<open>
  C9. For a limit below three and a text longer than the limit, \<^verbatim>\<open>_construct\<close>
  truncates with the negative slice bound \<open>limit - 3\<close>. A text of at least
  \<open>3 - limit\<close> characters loses its last \<open>3 - limit\<close> characters and gets the three
  dots, so the label has \<open>len(text) + limit\<close> characters; a shorter text gives the three
  dots alone. In every case the label's length differs from the limit.
\<close>

theorem FixedLabel_construct_small_limit:
  assumes "fl_limit self < 3" and "fl_limit self < int (length (fl_text self))"
  shows "(3 - fl_limit self \<le> int (length (fl_text self)) \<longrightarrow>
      FixedLabel_construct self =
        take (length (fl_text self) - nat (3 - fl_limit self)) (fl_text self) @ ''...'' \<and>
      int (length (FixedLabel_construct self)) = int (length (fl_text self)) + fl_limit self) \<and>
    (int (length (fl_text self)) < 3 - fl_limit self \<longrightarrow> FixedLabel_construct self = ''...'') \<and>
    int (length (FixedLabel_construct self)) \<noteq> fl_limit self"
proof -
  have eq: "FixedLabel_construct self = py_slice_to (fl_text self) (fl_limit self - 3) @ ''...''"
    using assms(2) by (rule FixedLabel_construct_long)
  have sl: "py_slice_to (fl_text self) (fl_limit self - 3) =
      take (length (fl_text self) - nat (3 - fl_limit self)) (fl_text self)"
  proof -
    have "nat (int (length (fl_text self)) + (fl_limit self - 3)) =
        length (fl_text self) - nat (3 - fl_limit self)"
      using assms(1) by linarith
    with assms(1) show ?thesis
      by (simp add: py_slice_to_def)
  qed
  show ?thesis
    using assms by (auto simp: eq sl)
qed

theorem FixedLabel_construct_small_limit_witness:
  "(2::int) < 3 \<and> (2::int) < int (length ''abc'') \<and>
   FixedLabel_construct \<lparr>fl_text = ''abc'', fl_limit = 2\<rparr> = ''ab...'' \<and>
   int (length (FixedLabel_construct \<lparr>fl_text = ''abc'', fl_limit = 2\<rparr>)) = 5"
  using FixedLabel_construct_small_limit [of "\<lparr>fl_text = ''abc'', fl_limit = 2\<rparr>"]
  by (simp add: FixedLabel_construct_def py_slice_to_def)

subsection \<open>The console\<close>

lemma emit_accepted: "con call = None \<Longrightarrow> emit con call = ([call], None)"
  by (simp add: emit_def)

lemma emit_refused: "con call = Some e \<Longrightarrow> emit con call = ([], Some e)"
  by (simp add: emit_def)

lemma then_print_ok: "then_print (written, None) q = (written @ fst q, snd q)"
  by (simp add: then_print_def)

lemma then_print_raised: "then_print (written, Some e) q = (written, Some e)"
  by (simp add: then_print_def)

lemma then_print_Nil: "then_print ([], None) q = q"
  by (simp add: then_print_def)

lemma then_print_assoc: "then_print (then_print p q) r = then_print p (then_print q r)"
  by (cases p; cases q; cases r) (auto simp: then_print_def split: option.splits)

lemma emit_all_accepted:
  "\<forall>c\<in>set cs. con c = None \<Longrightarrow> emit_all con cs = (cs, None)"
  by (induction cs) (simp_all add: emit_accepted then_print_ok)

lemma emit_all_refused:
  assumes "\<forall>c\<in>set before. con c = None" and "con call = Some e"
  shows "emit_all con (before @ call # rest) = (before, Some e)"
  using assms(1)
proof (induction before)
  case Nil
  with assms(2) show ?case
    by (simp add: emit_refused then_print_raised)
next
  case (Cons c before)
  then show ?case
    by (simp add: emit_accepted then_print_ok)
qed

lemma emit_all_append:
  "emit_all con (xs @ ys) = then_print (emit_all con xs) (emit_all con ys)"
  by (induction xs) (simp_all add: then_print_Nil then_print_assoc)

lemma console_refusing_nothing: "console_refusing [] call = None"
  by (cases call) (simp_all add: console_refusing_def)

subsection \<open>ScrollingTextBox\<close>

lemma ScrollingTextBox_print_step:
  assumes "1 \<le> stb_limit self"
  shows "ScrollingTextBox_print con self t =
    (self\<lparr>stb_line_buffer :=
             (if stb_limit self \<le> int (length (stb_line_buffer self))
              then tl (stb_line_buffer self) else stb_line_buffer self) @ [t]\<rparr>,
     emit_all con (map (\<lambda>line. ConsolePrint line None (Some False))
       ((if stb_limit self \<le> int (length (stb_line_buffer self))
         then tl (stb_line_buffer self) else stb_line_buffer self) @ [t])))"
proof (cases "stb_line_buffer self")
  case Nil
  with assms show ?thesis
    by (simp add: ScrollingTextBox_print_def)
next
  case (Cons oldest rest)
  then show ?thesis
    by (simp add: ScrollingTextBox_print_def)
qed

lemma ScrollingTextBox_prints_Cons:
  "ScrollingTextBox_prints con self (t # texts) =
    (fst (ScrollingTextBox_prints con (fst (ScrollingTextBox_print con self t)) texts),
     snd (ScrollingTextBox_print con self t)
       # snd (ScrollingTextBox_prints con (fst (ScrollingTextBox_print con self t)) texts))"
  by (cases "ScrollingTextBox_print con self t";
      cases "ScrollingTextBox_prints con (fst (ScrollingTextBox_print con self t)) texts")
     simp

lemma ScrollingTextBox_prints_full:
  assumes "1 \<le> stb_limit self" and "int (length (stb_line_buffer self)) = stb_limit self"
  shows "fst (ScrollingTextBox_prints con self texts) =
    self\<lparr>stb_line_buffer := drop (length texts) (stb_line_buffer self @ texts)\<rparr>"
  using assms
proof (induction texts arbitrary: self)
  case Nil
  then show ?case by simp
next
  case (Cons t texts)
  let ?self' = "self\<lparr>stb_line_buffer := tl (stb_line_buffer self) @ [t]\<rparr>"
  from Cons.prems have ne: "stb_line_buffer self \<noteq> []"
    by auto
  from Cons.prems have step: "fst (ScrollingTextBox_print con self t) = ?self'"
    by (simp add: ScrollingTextBox_print_step)
  from Cons.prems ne have inv: "1 \<le> stb_limit ?self'"
      "int (length (stb_line_buffer ?self')) = stb_limit ?self'"
    by (simp_all add: Suc_pred')
  have "fst (ScrollingTextBox_prints con self (t # texts)) =
      fst (ScrollingTextBox_prints con ?self' texts)"
    by (simp only: ScrollingTextBox_prints_Cons step fst_conv)
  also have "\<dots> = ?self'\<lparr>stb_line_buffer :=
      drop (length texts) (stb_line_buffer ?self' @ texts)\<rparr>"
    using inv by (rule Cons.IH)
  also have "drop (length texts) (stb_line_buffer ?self' @ texts) =
      drop (length (t # texts)) (stb_line_buffer self @ t # texts)"
    using ne by (cases "stb_line_buffer self") simp_all
  finally show ?case by simp
qed

lemma ScrollingTextBox_init_full:
  "1 \<le> limit \<Longrightarrow> int (length (stb_line_buffer (ScrollingTextBox_init limit))) = limit"
  by (simp add: ScrollingTextBox_init_def)

text \<open>
  C3 (as amended). For a box built with a limit of at least one, and whatever the console
  does: the buffer holds \<open>limit\<close> lines after construction; every \<^verbatim>\<open>print\<close> drops
  the line at index 0 exactly when the buffer already holds at least \<open>limit\<close> lines,
  puts the new line last and then prints the lines of the buffer in order, up to the first
  that the console refuses (all of them when it refuses none); and after the calls for
  \<open>texts\<close>, raising or not, the buffer holds \<open>limit\<close> lines, which are the last
  \<open>limit\<close> of \<open>texts\<close> in their order when there are more than \<open>limit\<close> of them.
\<close>

theorem ScrollingTextBox_keeps_last_lines:
  assumes "1 \<le> limit"
  shows "int (length (stb_line_buffer (ScrollingTextBox_init limit))) = limit \<and>
    (\<forall>self t. stb_limit self = limit \<longrightarrow>
       (\<exists>self' printed. ScrollingTextBox_print con self t = (self', printed) \<and>
          stb_limit self' = limit \<and>
          stb_line_buffer self' =
            (if limit \<le> int (length (stb_line_buffer self))
             then tl (stb_line_buffer self) else stb_line_buffer self) @ [t] \<and>
          printed = emit_all con
            (map (\<lambda>line. ConsolePrint line None (Some False)) (stb_line_buffer self')) \<and>
          ((\<forall>line\<in>set (stb_line_buffer self'). con (ConsolePrint line None (Some False)) = None)
             \<longrightarrow> printed =
               (map (\<lambda>line. ConsolePrint line None (Some False)) (stb_line_buffer self'),
                None)))) \<and>
    stb_limit (fst (ScrollingTextBox_prints con (ScrollingTextBox_init limit) texts)) = limit \<and>
    int (length (stb_line_buffer
      (fst (ScrollingTextBox_prints con (ScrollingTextBox_init limit) texts)))) = limit \<and>
    (limit < int (length texts) \<longrightarrow>
       stb_line_buffer (fst (ScrollingTextBox_prints con (ScrollingTextBox_init limit) texts)) =
         drop (length texts - nat limit) texts)"
proof (intro conjI allI impI)
  show "int (length (stb_line_buffer (ScrollingTextBox_init limit))) = limit"
    using assms by (rule ScrollingTextBox_init_full)
next
  fix self :: ScrollingTextBox and t
  assume lim: "stb_limit self = limit"
  with assms have one: "1 \<le> stb_limit self" by simp
  let ?kept = "(if limit \<le> int (length (stb_line_buffer self))
             then tl (stb_line_buffer self) else stb_line_buffer self) @ [t]"
  let ?self' = "self\<lparr>stb_line_buffer := ?kept\<rparr>"
  let ?printed = "emit_all con (map (\<lambda>line. ConsolePrint line None (Some False)) ?kept)"
  have step: "ScrollingTextBox_print con self t = (?self', ?printed)"
    using ScrollingTextBox_print_step [OF one, of con t] lim by simp
  have ok: "?printed = (map (\<lambda>line. ConsolePrint line None (Some False)) ?kept, None)"
    if "\<forall>line\<in>set ?kept. con (ConsolePrint line None (Some False)) = None"
    using that by (intro emit_all_accepted) auto
  show "\<exists>self' printed. ScrollingTextBox_print con self t = (self', printed) \<and>
          stb_limit self' = limit \<and>
          stb_line_buffer self' =
            (if limit \<le> int (length (stb_line_buffer self))
             then tl (stb_line_buffer self) else stb_line_buffer self) @ [t] \<and>
          printed = emit_all con
            (map (\<lambda>line. ConsolePrint line None (Some False)) (stb_line_buffer self')) \<and>
          ((\<forall>line\<in>set (stb_line_buffer self'). con (ConsolePrint line None (Some False)) = None)
             \<longrightarrow> printed =
               (map (\<lambda>line. ConsolePrint line None (Some False)) (stb_line_buffer self'),
                None))"
    using step lim ok by (intro exI [of _ ?self'] exI [of _ ?printed]) simp
next
  let ?init = "ScrollingTextBox_init limit"
  let ?final = "?init\<lparr>stb_line_buffer := drop (length texts) (stb_line_buffer ?init @ texts)\<rparr>"
  have lim: "stb_limit ?init = limit"
    by (simp add: ScrollingTextBox_init_def)
  have full: "int (length (stb_line_buffer ?init)) = limit"
    using assms by (rule ScrollingTextBox_init_full)
  have buf: "stb_line_buffer ?init = replicate (nat limit) []"
    by (simp add: ScrollingTextBox_init_def)
  have run: "fst (ScrollingTextBox_prints con ?init texts) = ?final"
    using assms lim full by (simp add: ScrollingTextBox_prints_full)
  show "stb_limit (fst (ScrollingTextBox_prints con ?init texts)) = limit"
    using lim by (simp add: run)
  show "int (length (stb_line_buffer (fst (ScrollingTextBox_prints con ?init texts)))) = limit"
    using full by (simp add: run)
  show "stb_line_buffer (fst (ScrollingTextBox_prints con ?init texts)) =
      drop (length texts - nat limit) texts"
    if "limit < int (length texts)"
    unfolding run using that assms by (simp add: buf)
qed

theorem ScrollingTextBox_keeps_last_lines_witness:
  "(1::int) \<le> 3 \<and>
   stb_line_buffer (fst (ScrollingTextBox_prints (console_refusing [''[/]''])
      (ScrollingTextBox_init 3) [''a'', ''[/]'', ''c'', ''d''])) = [''[/]'', ''c'', ''d'']"
  using ScrollingTextBox_keeps_last_lines
    [of 3 "console_refusing [''[/]'']" "[''a'', ''[/]'', ''c'', ''d'']"]
  by simp

text \<open>
  The restriction to a limit of at least one is needed. With limit 0 the first call of
  \<^verbatim>\<open>print\<close> raises \<^verbatim>\<open>IndexError\<close> and appends nothing; with limit -1 the buffer
  built by the constructor has 0 lines, not \<open>limit\<close>.
\<close>

theorem ScrollingTextBox_nonpositive_limit:
  "ScrollingTextBox_print (console_refusing []) (ScrollingTextBox_init 0) ''a'' =
     (ScrollingTextBox_init 0, [], Some IndexError) \<and>
   stb_line_buffer (fst (ScrollingTextBox_prints (console_refusing [])
     (ScrollingTextBox_init 0) [''a''])) = [] \<and>
   int (length (stb_line_buffer (ScrollingTextBox_init (- 1)))) \<noteq> - 1"
  by (simp add: ScrollingTextBox_print_def ScrollingTextBox_init_def)

text \<open>
  C10. A box built with limit 0 has an empty buffer, and every call of \<^verbatim>\<open>print\<close> on
  it raises \<^verbatim>\<open>IndexError\<close>: the test \<open>0 \<ge> 0\<close> sends it to \<^verbatim>\<open>pop(0)\<close> of the
  empty buffer, before the console is called. The box is left as it was, so every later
  call raises in the same way.
\<close>

theorem ScrollingTextBox_limit_zero:
  "stb_line_buffer (ScrollingTextBox_init 0) = [] \<and>
   ScrollingTextBox_print con (ScrollingTextBox_init 0) t =
     (ScrollingTextBox_init 0, [], Some IndexError) \<and>
   ScrollingTextBox_prints con (ScrollingTextBox_init 0) texts =
     (ScrollingTextBox_init 0, replicate (length texts) ([], Some IndexError))"
proof -
  have p: "ScrollingTextBox_print con (ScrollingTextBox_init 0) t =
      (ScrollingTextBox_init 0, [], Some IndexError)" for t
    by (simp add: ScrollingTextBox_print_def ScrollingTextBox_init_def)
  have "ScrollingTextBox_prints con (ScrollingTextBox_init 0) texts =
      (ScrollingTextBox_init 0, replicate (length texts) ([], Some IndexError))"
    by (induction texts) (simp_all only: ScrollingTextBox_prints_Cons p, simp_all)
  with p show ?thesis
    by (simp add: ScrollingTextBox_init_def)
qed

theorem ScrollingTextBox_limit_zero_witness:
  "ScrollingTextBox_print (console_refusing []) (ScrollingTextBox_init 0) ''first line'' =
     (ScrollingTextBox_init 0, [], Some IndexError)"
  using ScrollingTextBox_limit_zero [of "console_refusing []" "''first line''" "[]"]
  by simp

subsection \<open>Screen\<close>

lemma calls_append: "calls (t @ u) = calls t @ calls u"
  by (induction t rule: calls.induct) simp_all

lemma calls_map_Out: "calls (map Out xs) = []"
  by (induction xs) simp_all

lemma print_widgets_all:
  "\<forall>w\<in>set widgets. snd (render w) = None \<Longrightarrow>
   print_widgets render sep widgets =
     (concat (map (\<lambda>w. Call w # map Out (fst (render w)) @ [Out (StdoutWrite sep)]) widgets),
      None)"
proof (induction widgets)
  case Nil
  then show ?case by simp
next
  case (Cons w widgets)
  then obtain printed where "render w = (printed, None)"
    by (cases "render w") auto
  with Cons show ?case by simp
qed

lemma print_widgets_abort:
  assumes "\<forall>x\<in>set before. snd (render x) = None" and "snd (render w) = Some e"
  shows "print_widgets render sep (before @ w # rest) =
     (concat (map (\<lambda>w. Call w # map Out (fst (render w)) @ [Out (StdoutWrite sep)]) before)
        @ Call w # map Out (fst (render w)),
      Some e)"
  using assms(1)
proof (induction before)
  case Nil
  from assms(2) obtain printed where "render w = (printed, Some e)"
    by (cases "render w") auto
  then show ?case by simp
next
  case (Cons x before)
  then obtain printed where "render x = (printed, None)"
    by (cases "render x") auto
  with Cons show ?case by simp
qed

lemma calls_blocks:
  "calls (concat (map (\<lambda>w. Call w # map Out (f w) @ [Out s]) widgets)) = widgets"
  by (induction widgets) (simp_all add: calls_append calls_map_Out)

text \<open>
  C4. For a screen whose layout is a list of widgets, \<^verbatim>\<open>print_layout\<close> calls
  \<^verbatim>\<open>print\<close> on each widget once, in the order of the layout, and writes the separator
  after what each widget printed, the last one included. When the \<^verbatim>\<open>print\<close> of a
  widget raises, the exception leaves \<^verbatim>\<open>print_layout\<close> at once: the widgets before
  it have been printed with their separators, the failing widget has written what it wrote
  before raising, no separator follows and no later widget is called.
\<close>

theorem Screen_print_layout_in_order:
  assumes "scr_layout self = Some widgets"
  shows "((\<forall>w\<in>set widgets. snd (render w) = None) \<longrightarrow>
       Screen_print_layout render self =
         (concat (map (\<lambda>w. Call w # map Out (fst (render w))
                              @ [Out (StdoutWrite (scr_widget_separator self))]) widgets),
          None) \<and>
       calls (fst (Screen_print_layout render self)) = widgets) \<and>
    (\<forall>before w rest e.
       widgets = before @ w # rest \<and> (\<forall>x\<in>set before. snd (render x) = None)
         \<and> snd (render w) = Some e \<longrightarrow>
       Screen_print_layout render self =
         (concat (map (\<lambda>w. Call w # map Out (fst (render w))
                              @ [Out (StdoutWrite (scr_widget_separator self))]) before)
            @ Call w # map Out (fst (render w)),
          Some e) \<and>
       calls (fst (Screen_print_layout render self)) = before @ [w])"
proof (intro conjI allI impI)
  assume ok: "\<forall>w\<in>set widgets. snd (render w) = None"
  show all: "Screen_print_layout render self =
      (concat (map (\<lambda>w. Call w # map Out (fst (render w))
                           @ [Out (StdoutWrite (scr_widget_separator self))]) widgets),
       None)"
    using assms ok by (simp add: Screen_print_layout_def print_widgets_all)
  show "calls (fst (Screen_print_layout render self)) = widgets"
    by (simp add: all calls_blocks)
next
  fix before w rest e
  assume h: "widgets = before @ w # rest \<and> (\<forall>x\<in>set before. snd (render x) = None)
         \<and> snd (render w) = Some e"
  show ab: "Screen_print_layout render self =
      (concat (map (\<lambda>w. Call w # map Out (fst (render w))
                           @ [Out (StdoutWrite (scr_widget_separator self))]) before)
         @ Call w # map Out (fst (render w)),
       Some e)"
    using assms h by (simp add: Screen_print_layout_def print_widgets_abort)
  show "calls (fst (Screen_print_layout render self)) = before @ [w]"
    by (simp add: ab calls_append calls_blocks calls_map_Out)
qed


theorem Screen_print_layout_in_order_witness:
  "Screen_print_layout (Widget_print (console_refusing []))
     \<lparr>scr_updates = 0,
      scr_layout = Some [WHeader \<lparr>h_text = ''Menu'', h_style = ''bold''\<rparr>,
                         WFixedLabel \<lparr>fl_text = ''hello world'', fl_limit = 8\<rparr>],
      scr_widget_separator = ''--'', scr_ci = \<lparr>ci_size = 0, ci_visible = False\<rparr>,
      scr_ci_handle = 7\<rparr> =
   ([Call (WHeader \<lparr>h_text = ''Menu'', h_style = ''bold''\<rparr>),
     Out (ConsolePrint '' Menu '' (Some ''bold'') (Some False)),
     Out (StdoutWrite ''--''),
     Call (WFixedLabel \<lparr>fl_text = ''hello world'', fl_limit = 8\<rparr>),
     Out (ConsolePrint ''hello...'' None None),
     Out (StdoutWrite ''--'')], None) \<and>
   Screen_print_layout (Widget_print (console_refusing []))
     \<lparr>scr_updates = 0,
      scr_layout = Some [WHeader \<lparr>h_text = ''Menu'', h_style = ''bold''\<rparr>, Widget,
                         WFixedLabel \<lparr>fl_text = ''hello world'', fl_limit = 8\<rparr>],
      scr_widget_separator = ''--'', scr_ci = \<lparr>ci_size = 0, ci_visible = False\<rparr>,
      scr_ci_handle = 7\<rparr> =
   ([Call (WHeader \<lparr>h_text = ''Menu'', h_style = ''bold''\<rparr>),
     Out (ConsolePrint '' Menu '' (Some ''bold'') (Some False)),
     Out (StdoutWrite ''--''),
     Call Widget], Some NotImplementedError)"
proof -
  define con where "con = console_refusing []"
  define h where "h = WHeader \<lparr>h_text = ''Menu'', h_style = ''bold''\<rparr>"
  define l where "l = WFixedLabel \<lparr>fl_text = ''hello world'', fl_limit = 8\<rparr>"
  define s1 :: "widget Screen" where "s1 = \<lparr>scr_updates = 0, scr_layout = Some [h, l],
      scr_widget_separator = ''--'', scr_ci = \<lparr>ci_size = 0, ci_visible = False\<rparr>,
      scr_ci_handle = 7\<rparr>"
  define s2 :: "widget Screen" where "s2 = \<lparr>scr_updates = 0, scr_layout = Some [h, Widget, l],
      scr_widget_separator = ''--'', scr_ci = \<lparr>ci_size = 0, ci_visible = False\<rparr>,
      scr_ci_handle = 7\<rparr>"
  have ph: "Widget_print con h = ([ConsolePrint '' Menu '' (Some ''bold'') (Some False)], None)"
    by (simp add: h_def con_def Header_print_def emit_def console_refusing_nothing)
  have pl: "Widget_print con l = ([ConsolePrint ''hello...'' None None], None)"
    by (simp add: l_def con_def FixedLabel_print_def FixedLabel_construct_def py_slice_to_def
        emit_def console_refusing_nothing)
  have l1: "scr_layout s1 = Some [h, l]" and sep1: "scr_widget_separator s1 = ''--''"
    by (simp_all add: s1_def)
  have l2: "scr_layout s2 = Some [h, Widget, l]" and sep2: "scr_widget_separator s2 = ''--''"
    by (simp_all add: s2_def)
  have ok: "\<forall>w\<in>set [h, l]. snd (Widget_print con w) = None"
    by (simp add: ph pl)
  have ab: "[h, Widget, l] = [h] @ Widget # [l] \<and>
      (\<forall>x\<in>set [h]. snd (Widget_print con x) = None)
      \<and> snd (Widget_print con Widget) = Some NotImplementedError"
    by (simp add: ph)
  have 1: "Screen_print_layout (Widget_print con) s1 =
      ([Call h, Out (ConsolePrint '' Menu '' (Some ''bold'') (Some False)), Out (StdoutWrite ''--''),
        Call l, Out (ConsolePrint ''hello...'' None None), Out (StdoutWrite ''--'')], None)"
    using Screen_print_layout_in_order [OF l1, of "Widget_print con", THEN conjunct1, THEN mp,
        OF ok]
    by (simp add: ph pl sep1)
  have 2: "Screen_print_layout (Widget_print con) s2 =
      ([Call h, Out (ConsolePrint '' Menu '' (Some ''bold'') (Some False)), Out (StdoutWrite ''--''),
        Call Widget], Some NotImplementedError)"
    using Screen_print_layout_in_order [OF l2, of "Widget_print con", THEN conjunct2, rule_format,
        OF ab]
    by (simp add: ph sep2)
  show ?thesis
    using 1 2 unfolding s1_def s2_def h_def l_def con_def by simp
qed

text \<open>
  C7 (as amended). Where \<^verbatim>\<open>ctypes.windll\<close> does not exist, \<^verbatim>\<open>hide_cursor\<close> and
  \<^verbatim>\<open>show_cursor\<close> raise \<^verbatim>\<open>AttributeError\<close>, the exception of reading the
  missing attribute, which they do not catch: neither returns normally, so neither is a
  silent no-op. The package has no report of its own for the unsupported platform, and
  the constructor of \<^verbatim>\<open>Screen\<close> raises the same exception there, so the methods are
  reached only on an object that was not made by the constructor.
\<close>

theorem cursor_fails_without_windll:
  assumes "windll env = None"
  shows "Screen_hide_cursor env self = Inl AttributeError \<and>
    Screen_show_cursor env self = Inl AttributeError \<and>
    \<not> reports_unsupported_operation AttributeError \<and>
    Screen_init env layout widget_separator = Inl AttributeError"
  using assms
  by (simp add: Screen_hide_cursor_def Screen_show_cursor_def reports_unsupported_operation_def
      Screen_init_def)

theorem cursor_fails_without_windll_witness:
  "windll \<lparr>oprsys = ''Linux'', windll = None, console = ()\<rparr> = None \<and>
   Screen_hide_cursor \<lparr>oprsys = ''Linux'', windll = None, console = ()\<rparr>
     \<lparr>scr_updates = 0, scr_layout = Some [Widget], scr_widget_separator = ''--'',
      scr_ci = \<lparr>ci_size = 0, ci_visible = False\<rparr>, scr_ci_handle = 7\<rparr> = Inl AttributeError \<and>
   Screen_show_cursor \<lparr>oprsys = ''Linux'', windll = None, console = ()\<rparr>
     \<lparr>scr_updates = 0, scr_layout = Some [Widget], scr_widget_separator = ''--'',
      scr_ci = \<lparr>ci_size = 0, ci_visible = False\<rparr>, scr_ci_handle = 7\<rparr> = Inl AttributeError"
  using cursor_fails_without_windll
    [of "\<lparr>oprsys = ''Linux'', windll = None, console = ()\<rparr>"
        "\<lparr>scr_updates = 0, scr_layout = Some [Widget], scr_widget_separator = ''--'',
          scr_ci = \<lparr>ci_size = 0, ci_visible = False\<rparr>, scr_ci_handle = 7\<rparr>"
        "Some [Widget]" "''--''"]
  by simp

text \<open>
  The exception is not a report of an unsupported operation: on a platform without
  \<^verbatim>\<open>ctypes.windll\<close> both methods end in the \<^verbatim>\<open>AttributeError\<close> of the attribute
  lookup.
\<close>

theorem cursor_error_is_no_unsupported_report:
  "Screen_hide_cursor \<lparr>oprsys = ''Linux'', windll = None, console = ()\<rparr>
     \<lparr>scr_updates = 0, scr_layout = Some [Widget], scr_widget_separator = ''--'',
      scr_ci = \<lparr>ci_size = 0, ci_visible = False\<rparr>, scr_ci_handle = 7\<rparr> = Inl AttributeError \<and>
   Screen_show_cursor \<lparr>oprsys = ''Linux'', windll = None, console = ()\<rparr>
     \<lparr>scr_updates = 0, scr_layout = Some [Widget], scr_widget_separator = ''--'',
      scr_ci = \<lparr>ci_size = 0, ci_visible = False\<rparr>, scr_ci_handle = 7\<rparr> = Inl AttributeError \<and>
   \<not> reports_unsupported_operation AttributeError"
  by (simp add: Screen_hide_cursor_def Screen_show_cursor_def reports_unsupported_operation_def)

text \<open>
  C8. Where \<^verbatim>\<open>ctypes.windll\<close> does not exist, the constructor of \<^verbatim>\<open>Screen\<close>
  itself raises \<^verbatim>\<open>AttributeError\<close>, for every layout and separator: no screen is
  returned, so \<^verbatim>\<open>clear\<close>, \<^verbatim>\<open>print\<close> and \<^verbatim>\<open>print_layout\<close> of a new screen
  are never reached. \<^verbatim>\<open>clear\<close> all the same chooses its command by
  \<^verbatim>\<open>platform.system()\<close>.
\<close>

theorem Screen_init_fails_without_windll:
  assumes "windll env = None"
  shows "Screen_init env layout widget_separator = Inl AttributeError \<and>
    (\<forall>self. Screen_init env layout widget_separator \<noteq> Inr self) \<and>
    with_new_Screen env layout widget_separator (Screen_clear env) = Inl AttributeError \<and>
    with_new_Screen env layout widget_separator (\<lambda>self. Screen_print con self text) =
      Inl AttributeError \<and>
    with_new_Screen env layout widget_separator (Screen_print_layout render) =
      Inl AttributeError \<and>
    snd (Screen_clear env self) =
      [if oprsys env = ''Windows'' then System ''cls'' else System ''clear'']"
  using assms by (simp add: Screen_init_def with_new_Screen_def Screen_clear_def)

theorem Screen_init_fails_without_windll_witness:
  "windll \<lparr>oprsys = ''Linux'', windll = None, console = ()\<rparr> = None \<and>
   Screen_init \<lparr>oprsys = ''Linux'', windll = None, console = ()\<rparr> (Some [Widget]) ''--''
     = Inl AttributeError \<and>
   with_new_Screen \<lparr>oprsys = ''Linux'', windll = None, console = ()\<rparr> (Some [Widget]) ''--''
     (Screen_clear \<lparr>oprsys = ''Linux'', windll = None, console = ()\<rparr>) = Inl AttributeError \<and>
   with_new_Screen \<lparr>oprsys = ''Linux'', windll = None, console = ()\<rparr> (Some [Widget]) ''--''
     (Screen_print_layout (Widget_print (console_refusing []))) = Inl AttributeError"
  using Screen_init_fails_without_windll
    [of "\<lparr>oprsys = ''Linux'', windll = None, console = ()\<rparr>" "Some [Widget]" "''--''"
        "console_refusing []" "''hello''" "Widget_print (console_refusing [])"
        "\<lparr>scr_updates = 0, scr_layout = Some [Widget], scr_widget_separator = ''--'',
          scr_ci = \<lparr>ci_size = 0, ci_visible = False\<rparr>, scr_ci_handle = 7\<rparr>"]
  by simp

subsection \<open>DataFrame\<close>

lemma emit_all_accepted_nth:
  assumes "\<forall>i < length cs. con (cs ! i) = None"
  shows "emit_all con cs = (cs, None)"
proof (rule emit_all_accepted)
  show "\<forall>c\<in>set cs. con c = None"
    using assms by (auto simp: in_set_conv_nth)
qed

lemma emit_all_refused_nth:
  assumes "i < length cs" and "\<forall>j < i. con (cs ! j) = None" and "con (cs ! i) = Some e"
  shows "emit_all con cs = (take i cs, Some e)"
proof -
  have split: "cs = take i cs @ cs ! i # drop (Suc i) cs"
    using assms(1) by (rule id_take_nth_drop)
  have "\<forall>c\<in>set (take i cs). con c = None"
  proof
    fix c assume "c \<in> set (take i cs)"
    then obtain j where "j < length (take i cs)" and "take i cs ! j = c"
      by (auto simp: in_set_conv_nth)
    with assms(1,2) show "con c = None"
      by auto
  qed
  from emit_all_refused [OF this assms(3), of "drop (Suc i) cs"] split
  show ?thesis by simp
qed

text \<open>
  C5 (as amended). Once the header is printed, \<^verbatim>\<open>DataFrame.print\<close> writes one line
  for each of the first \<open>min (len data) (len colors)\<close> positions, line \<open>i\<close> made of
  the \<open>i\<close>-th color and the \<open>i\<close>-th data string, and drops the entries of the longer
  sequence beyond that: exactly that many lines when the console refuses none of them.
  When the console raises on line \<open>i\<close>, the exception leaves \<^verbatim>\<open>print\<close> and exactly
  the \<open>i\<close> lines before it have been written.
\<close>

theorem DataFrame_print_min_lines:
  assumes "snd (print_header con (df_header self)) = None"
  shows
    "((\<forall>i < min (length (df_data self)) (length (df_colors self)).
         con (ConsolePrint (''['' @ df_colors self ! i @ '']+[/'' @ df_colors self ! i @ ''] ''
                @ df_data self ! i) None (Some False)) = None) \<longrightarrow>
      DataFrame_print con self =
        (fst (print_header con (df_header self)) @ DataFrame_data_lines con self, None) \<and>
      length (DataFrame_data_lines con self) =
        min (length (df_data self)) (length (df_colors self)) \<and>
      (\<forall>i < min (length (df_data self)) (length (df_colors self)).
         DataFrame_data_lines con self ! i =
           ConsolePrint (''['' @ df_colors self ! i @ '']+[/'' @ df_colors self ! i @ ''] ''
                           @ df_data self ! i) None (Some False))) \<and>
     (\<forall>i e. i < min (length (df_data self)) (length (df_colors self)) \<and>
        (\<forall>j < i.
           con (ConsolePrint (''['' @ df_colors self ! j @ '']+[/'' @ df_colors self ! j @ ''] ''
                  @ df_data self ! j) None (Some False)) = None) \<and>
        con (ConsolePrint (''['' @ df_colors self ! i @ '']+[/'' @ df_colors self ! i @ ''] ''
               @ df_data self ! i) None (Some False)) = Some e \<longrightarrow>
        snd (DataFrame_print con self) = Some e \<and>
        length (DataFrame_data_lines con self) = i \<and>
        (\<forall>j < i.
           DataFrame_data_lines con self ! j =
             ConsolePrint (''['' @ df_colors self ! j @ '']+[/'' @ df_colors self ! j @ ''] ''
                             @ df_data self ! j) None (Some False)))"
proof -
  define lines where "lines = map DataFrame_line (zip (df_data self) (df_colors self))"
  let ?n = "min (length (df_data self)) (length (df_colors self))"
  let ?line = "\<lambda>i. ConsolePrint (''['' @ df_colors self ! i @ '']+[/'' @ df_colors self ! i
      @ ''] '' @ df_data self ! i) None (Some False)"
  obtain head where head: "print_header con (df_header self) = (head, None)"
    using assms by (cases "print_header con (df_header self)") auto
  have len: "length lines = ?n"
    by (simp add: lines_def)
  have nth: "lines ! i = ?line i" if "i < ?n" for i
    using that by (simp add: lines_def DataFrame_line_def)
  have print: "DataFrame_print con self = (head @ fst (emit_all con lines), snd (emit_all con lines))"
    by (simp add: DataFrame_print_def head then_print_ok lines_def)
  have data: "DataFrame_data_lines con self = fst (emit_all con lines)"
    by (simp add: DataFrame_data_lines_def head print)
  show ?thesis
  proof (intro conjI allI impI)
    assume a: "\<forall>i < ?n. con (?line i) = None"
    have e: "emit_all con lines = (lines, None)"
      using a len nth by (intro emit_all_accepted_nth) simp
    show "DataFrame_print con self =
        (fst (print_header con (df_header self)) @ DataFrame_data_lines con self, None)"
      by (simp add: print data head e)
    show "length (DataFrame_data_lines con self) = ?n"
      by (simp add: data e len)
    fix i assume "i < ?n"
    then show "DataFrame_data_lines con self ! i = ?line i"
      by (simp add: data e nth)
  next
    fix i e
    assume a: "i < ?n \<and> (\<forall>j < i. con (?line j) = None) \<and> con (?line i) = Some e"
    have r: "emit_all con lines = (take i lines, Some e)"
    proof (rule emit_all_refused_nth)
      from a len show "i < length lines" by simp
      from a nth show "\<forall>j < i. con (lines ! j) = None" by simp
      from a nth show "con (lines ! i) = Some e" by simp
    qed
    show "snd (DataFrame_print con self) = Some e"
      by (simp add: print r)
    from a len show "length (DataFrame_data_lines con self) = i"
      by (simp add: data r)
    fix j assume "j < i"
    with a show "DataFrame_data_lines con self ! j = ?line j"
      by (simp add: data r nth)
  qed
qed

theorem DataFrame_print_min_lines_witness:
  "DataFrame_print (console_refusing [])
     \<lparr>df_data = [''x'', ''y'', ''z''], df_header = None, df_colors = [''red'', ''green'']\<rparr> =
     ([ConsolePrint ''[red]+[/red] x'' None (Some False),
       ConsolePrint ''[green]+[/green] y'' None (Some False)], None) \<and>
   length (DataFrame_data_lines (console_refusing [])
     \<lparr>df_data = [''x'', ''y'', ''z''], df_header = None, df_colors = [''red'', ''green'']\<rparr>) = 2 \<and>
   DataFrame_print (console_refusing [''[green]+[/green] path [/usr/bin]''])
     \<lparr>df_data = [''x'', ''path [/usr/bin]'', ''z''], df_header = None,
      df_colors = [''red'', ''green'', ''blue'']\<rparr> =
     ([ConsolePrint ''[red]+[/red] x'' None (Some False)], Some MarkupError)"
proof -
  define d1 where "d1 =
    \<lparr>df_data = [''x'', ''y'', ''z''], df_header = None, df_colors = [''red'', ''green'']\<rparr>"
  define d2 where "d2 = \<lparr>df_data = [''x'', ''path [/usr/bin]'', ''z''], df_header = None,
      df_colors = [''red'', ''green'', ''blue'']\<rparr>"
  have h1: "snd (print_header (console_refusing []) (df_header d1)) = None"
    by (simp add: d1_def print_header_def)
  have a1: "\<forall>i < min (length (df_data d1)) (length (df_colors d1)).
      console_refusing [] (ConsolePrint (''['' @ df_colors d1 ! i @ '']+[/'' @ df_colors d1 ! i
        @ ''] '' @ df_data d1 ! i) None (Some False)) = None"
    by (simp add: console_refusing_nothing)
  note t1 = DataFrame_print_min_lines [OF h1, THEN conjunct1, THEN mp, OF a1]
  have n1: "length (DataFrame_data_lines (console_refusing []) d1) = 2"
    using t1 by (simp add: d1_def)
  have p1: "DataFrame_print (console_refusing []) d1 =
     ([ConsolePrint ''[red]+[/red] x'' None (Some False),
       ConsolePrint ''[green]+[/green] y'' None (Some False)], None)"
    by (simp add: d1_def DataFrame_print_def print_header_def then_print_def emit_def
        DataFrame_line_def console_refusing_def)
  have p2: "DataFrame_print (console_refusing [''[green]+[/green] path [/usr/bin]'']) d2 =
     ([ConsolePrint ''[red]+[/red] x'' None (Some False)], Some MarkupError)"
    by (simp add: d2_def DataFrame_print_def print_header_def then_print_def emit_def
        DataFrame_line_def console_refusing_def)
  show ?thesis
    using p1 n1 p2 unfolding d1_def d2_def by simp
qed

text \<open>
  Not every frame gets its \<open>min (len data) (len colors)\<close> lines: the data string
  \<^verbatim>\<open>a[/]\<close> makes the first line \<^verbatim>\<open>[red]+[/red] a[/]\<close>, whose last tag closes
  nothing, so that Rich raises \<^verbatim>\<open>MarkupError\<close> and no data line is written.
\<close>

theorem DataFrame_print_unbalanced_markup:
  "DataFrame_print (console_refusing [''[red]+[/red] a[/]''])
     \<lparr>df_data = [''a[/]'', ''c''], df_header = None, df_colors = [''red'', ''green'']\<rparr> =
     ([], Some MarkupError) \<and>
   length (DataFrame_data_lines (console_refusing [''[red]+[/red] a[/]''])
     \<lparr>df_data = [''a[/]'', ''c''], df_header = None, df_colors = [''red'', ''green'']\<rparr>) = 0 \<and>
   min (length [''a[/]'', ''c'']) (length [''red'', ''green'']) = 2"
  by (simp add: DataFrame_data_lines_def DataFrame_print_def print_header_def then_print_def
      emit_def DataFrame_line_def console_refusing_def)

subsection \<open>Selector\<close>

lemma digit_char:
  assumes "k < 10"
  shows "py_isdigit (''0123456789'' ! k) \<and> py_digit_value (''0123456789'' ! k) = k \<and>
    ((''0123456789'' ! k = CHR ''0'') = (k = 0))"
proof -
  from assms have "k = 0 \<or> k = 1 \<or> k = 2 \<or> k = 3 \<or> k = 4 \<or> k = 5 \<or> k = 6 \<or> k = 7
      \<or> k = 8 \<or> k = 9"
    by arith
  then show ?thesis
    by (elim disjE) (simp_all add: py_isdigit_def py_digit_value_def)
qed

lemma py_str_nat_not_empty: "py_str_nat n \<noteq> []"
  by (subst py_str_nat.simps) simp

lemma py_str_nat_digits: "\<forall>ch\<in>set (py_str_nat n). py_isdigit ch"
proof (induction n rule: py_str_nat.induct)
  case (1 n)
  show ?case
  proof (cases "n < 10")
    case True
    then show ?thesis
      by (subst py_str_nat.simps) (simp add: digit_char)
  next
    case False
    with "1" have "\<forall>ch\<in>set (py_str_nat (n div 10)). py_isdigit ch"
      by simp
    moreover have "py_isdigit (''0123456789'' ! (n mod 10))"
      by (simp add: digit_char)
    ultimately show ?thesis
      using False by (subst py_str_nat.simps) simp
  qed
qed

lemma py_str_nat_value:
  "foldl (\<lambda>a ch. 10 * a + py_digit_value ch) 0 (py_str_nat n) = n"
proof (induction n rule: py_str_nat.induct)
  case (1 n)
  show ?case
  proof (cases "n < 10")
    case True
    then show ?thesis
      by (subst py_str_nat.simps) (simp add: digit_char)
  next
    case False
    with "1" have "foldl (\<lambda>a ch. 10 * a + py_digit_value ch) 0 (py_str_nat (n div 10)) = n div 10"
      by simp
    moreover have "py_digit_value (''0123456789'' ! (n mod 10)) = n mod 10"
      by (simp add: digit_char)
    ultimately show ?thesis
      using False by (subst py_str_nat.simps) simp
  qed
qed

lemma py_str_nat_leading:
  "hd (py_str_nat n) = CHR ''0'' \<Longrightarrow> n = 0"
proof (induction n rule: py_str_nat.induct)
  case (1 n)
  show ?case
  proof (cases "n < 10")
    case True
    with "1.prems" show ?thesis
      by (subst (asm) py_str_nat.simps) (simp add: digit_char)
  next
    case False
    then have "py_str_nat n = py_str_nat (n div 10) @ [''0123456789'' ! (n mod 10)]"
      by (subst py_str_nat.simps) simp
    with "1.prems" have "hd (py_str_nat (n div 10)) = CHR ''0''"
      by (simp add: py_str_nat_not_empty)
    with "1.IH" False have "n div 10 = 0"
      by simp
    with False show ?thesis
      by simp
  qed
qed

lemma py_str_int_decimal:
  assumes "0 < i"
  shows "(\<forall>ch\<in>set (py_str_int i). py_isdigit ch) \<and> hd (py_str_int i) \<noteq> CHR ''0'' \<and>
    int (foldl (\<lambda>a ch. 10 * a + py_digit_value ch) 0 (py_str_int i)) = i"
proof -
  from assms have eq: "py_str_int i = py_str_nat (nat i)"
    by (simp add: py_str_int_def)
  have "hd (py_str_nat (nat i)) \<noteq> CHR ''0''"
    using py_str_nat_leading [of "nat i"] assms by auto
  with assms show ?thesis
    by (simp add: eq py_str_nat_digits py_str_nat_value)
qed

lemma dict_getitem_item:
  "dict_wf d \<Longrightarrow> (k, v) \<in> set d \<Longrightarrow> dict_getitem d k = Inr v"
  by (simp add: dict_wf_def dict_getitem_def)

lemma Selector_print_keys_numbered:
  assumes "dict_wf d" and "set its \<subseteq> set d"
  shows "fst (Selector_print_keys con d (map fst its) (c + int n)) =
      emit_all con (concat (map (\<lambda>(j, k, v). [Selector_label (c + int j) k, Selector_description v])
                       (enumerate n its))) \<and>
    (snd (emit_all con (concat (map
        (\<lambda>(j, k, v). [Selector_label (c + int j) k, Selector_description v])
        (enumerate n its)))) = None \<longrightarrow>
     snd (Selector_print_keys con d (map fst its) (c + int n)) = c + int n + int (length its))"
  using assms(2)
proof (induction its arbitrary: n)
  case Nil
  then show ?case by simp
next
  case (Cons it its)
  obtain k v where it: "it = (k, v)"
    by (cases it)
  with Cons.prems have "(k, v) \<in> set d" and sub: "set its \<subseteq> set d"
    by simp_all
  with assms(1) have get: "dict_getitem d k = Inr v"
    by (simp add: dict_getitem_item)
  let ?rest = "concat (map (\<lambda>(j, k, v). [Selector_label (c + int j) k, Selector_description v])
      (enumerate (Suc n) its))"
  have suc: "c + int n + 1 = c + int (Suc n)"
    by simp
  note IH = Cons.IH [OF sub, of "Suc n", folded suc]
  obtain printed r i' where rec:
    "Selector_print_keys con d (map fst its) (c + int n + 1) = ((printed, r), i')"
    by (metis prod.exhaust)
  from IH have "fst (Selector_print_keys con d (map fst its) (c + int n + 1)) =
      emit_all con ?rest"
    by (rule conjunct1)
  with rec have all: "emit_all con ?rest = (printed, r)"
    by simp
  from IH have "snd (emit_all con ?rest) = None \<longrightarrow>
      snd (Selector_print_keys con d (map fst its) (c + int n + 1)) =
        c + int n + 1 + int (length its)"
    by (rule conjunct2)
  then have cnt: "r = None \<longrightarrow> i' = c + int n + 1 + int (length its)"
    by (simp add: all rec)
  show ?case
  proof (cases "con (Selector_label (c + int n) k)")
    case (Some e)
    then show ?thesis
      by (simp add: it emit_def then_print_def)
  next
    case None
    note label = this
    show ?thesis
    proof (cases "con (Selector_description v)")
      case (Some e)
      with label show ?thesis
        by (simp add: it get emit_def then_print_def)
    next
      case None
      with label cnt show ?thesis
        by (simp add: it get emit_def then_print_def rec all)
    qed
  qed
qed

lemma Selector_print_choices_numbered:
  assumes "\<forall>d\<in>set choices. dict_wf d"
  shows "fst (Selector_print_choices con choices (c + int n)) =
      emit_all con (concat (map (\<lambda>(j, k, v). [Selector_label (c + int j) k, Selector_description v])
                       (enumerate n (concat choices)))) \<and>
    (snd (emit_all con (concat (map
        (\<lambda>(j, k, v). [Selector_label (c + int j) k, Selector_description v])
        (enumerate n (concat choices))))) = None \<longrightarrow>
     snd (Selector_print_choices con choices (c + int n)) =
       c + int n + int (length (concat choices)))"
  using assms
proof (induction choices arbitrary: n)
  case Nil
  then show ?case by simp
next
  case (Cons d choices)
  then have wf: "dict_wf d" and rest: "\<forall>d\<in>set choices. dict_wf d"
    by simp_all
  let ?f = "\<lambda>(j, k, v). [Selector_label (c + int j) k, Selector_description v]"
  let ?here = "concat (map ?f (enumerate n d))"
  let ?later = "concat (map ?f (enumerate (n + length d) (concat choices)))"
  have split: "concat (map ?f (enumerate n (concat (d # choices)))) = ?here @ ?later"
    by (simp add: enumerate_append_eq)
  obtain printed r i' where keys:
    "Selector_print_keys con d (dict_keys d) (c + int n) = ((printed, r), i')"
    by (metis prod.exhaust)
  note K = Selector_print_keys_numbered [OF wf, of d con c n, simplified, folded dict_keys_def]
  from K have "fst (Selector_print_keys con d (dict_keys d) (c + int n)) = emit_all con ?here"
    by (rule conjunct1)
  with keys have here: "emit_all con ?here = (printed, r)"
    by simp
  from K have "snd (emit_all con ?here) = None \<longrightarrow>
      snd (Selector_print_keys con d (dict_keys d) (c + int n)) = c + int n + int (length d)"
    by (rule conjunct2)
  then have cnt: "r = None \<longrightarrow> i' = c + int n + int (length d)"
    by (simp add: here keys)
  show ?case
  proof (cases r)
    case (Some e)
    with keys here show ?thesis
      by (simp only: split emit_all_append) (simp add: then_print_def)
  next
    case None
    with cnt have i': "i' = c + int (n + length d)"
      by simp
    obtain printed' r' i'' where later:
      "Selector_print_choices con choices (c + int (n + length d)) = ((printed', r'), i'')"
      by (metis prod.exhaust)
    note L = Cons.IH [OF rest, of "n + length d"]
    from L have "fst (Selector_print_choices con choices (c + int (n + length d))) =
        emit_all con ?later"
      by (rule conjunct1)
    with later have l: "emit_all con ?later = (printed', r')"
      by simp
    from L have "snd (emit_all con ?later) = None \<longrightarrow>
        snd (Selector_print_choices con choices (c + int (n + length d))) =
          c + int (n + length d) + int (length (concat choices))"
      by (rule conjunct2)
    then have cnt': "r' = None \<longrightarrow>
        i'' = c + int (n + length d) + int (length (concat choices))"
      unfolding l later snd_conv .
    from None keys here i' later l cnt' show ?thesis
      by (simp only: split emit_all_append) (simp add: then_print_def)
  qed
qed

text \<open>
  C6 (as amended). \<^verbatim>\<open>Selector.print\<close> goes through the pairs of label and
  description of all the choices, in the order of the choices and, within a choice, of its
  keys, and prints the pair at position \<open>j\<close> (from 0) of that flattened sequence with the
  number \<open>1 + j\<close>, whatever the number of keys of each choice: every pair when the
  console refuses no line, the counter ending at one more than the number of pairs, and
  the lines before the first refused one when the console raises, the exception leaving
  \<^verbatim>\<open>print\<close>. The number is written in decimal digits without a leading zero.
\<close>

theorem Selector_print_numbering:
  assumes "\<forall>d\<in>set (sel_choices self). dict_wf d"
  shows "Selector_print con self =
      then_print (print_header con (sel_header self))
        (emit_all con
          (concat (map (\<lambda>(j, label, description).
              [ConsolePrint (''[b]'' @ py_str_int (1 + int j) @ ''. '' @ label @ ''[/]'')
                 None (Some False),
               ConsolePrint (''   '' @ description) None (Some False)])
            (enumerate 0 (concat (sel_choices self)))))) \<and>
    (snd (print_header con (sel_header self)) = None \<and>
     (\<forall>c\<in>set (concat (map (\<lambda>(j, label, description).
              [ConsolePrint (''[b]'' @ py_str_int (1 + int j) @ ''. '' @ label @ ''[/]'')
                 None (Some False),
               ConsolePrint (''   '' @ description) None (Some False)])
            (enumerate 0 (concat (sel_choices self))))). con c = None) \<longrightarrow>
     Selector_print con self =
       (fst (print_header con (sel_header self)) @
        concat (map (\<lambda>(j, label, description).
              [ConsolePrint (''[b]'' @ py_str_int (1 + int j) @ ''. '' @ label @ ''[/]'')
                 None (Some False),
               ConsolePrint (''   '' @ description) None (Some False)])
            (enumerate 0 (concat (sel_choices self)))),
        None) \<and>
     snd (Selector_print_choices con (sel_choices self) 1) =
       1 + int (length (concat (sel_choices self)))) \<and>
    (\<forall>before c rest e.
       snd (print_header con (sel_header self)) = None \<and>
       concat (map (\<lambda>(j, label, description).
              [ConsolePrint (''[b]'' @ py_str_int (1 + int j) @ ''. '' @ label @ ''[/]'')
                 None (Some False),
               ConsolePrint (''   '' @ description) None (Some False)])
            (enumerate 0 (concat (sel_choices self)))) = before @ c # rest \<and>
       (\<forall>x\<in>set before. con x = None) \<and> con c = Some e \<longrightarrow>
       Selector_print con self = (fst (print_header con (sel_header self)) @ before, Some e)) \<and>
    (\<forall>j. (\<forall>ch\<in>set (py_str_int (1 + int j)). py_isdigit ch) \<and>
         hd (py_str_int (1 + int j)) \<noteq> CHR ''0'' \<and>
         foldl (\<lambda>a ch. 10 * a + py_digit_value ch) 0 (py_str_int (1 + int j)) = 1 + j)"
proof -
  define listing where "listing = concat (map (\<lambda>(j, label, description).
      [ConsolePrint (''[b]'' @ py_str_int (1 + int j) @ ''. '' @ label @ ''[/]'')
         None (Some False),
       ConsolePrint (''   '' @ description) None (Some False)])
    (enumerate 0 (concat (sel_choices self))))"
  have listing: "listing = concat (map
      (\<lambda>(j, k, v). [Selector_label (1 + int j) k, Selector_description v])
      (enumerate 0 (concat (sel_choices self))))"
    by (simp add: listing_def Selector_label_def Selector_description_def)
  note N = Selector_print_choices_numbered [OF assms, of con 1 0, simplified, folded listing]
  from N have body: "fst (Selector_print_choices con (sel_choices self) 1) = emit_all con listing"
    by (rule conjunct1)
  from N have counter: "snd (emit_all con listing) = None \<longrightarrow>
      snd (Selector_print_choices con (sel_choices self) 1) =
        1 + int (length (concat (sel_choices self)))"
    by (rule conjunct2)
  have eq: "Selector_print con self =
      then_print (print_header con (sel_header self)) (emit_all con listing)"
    by (simp add: Selector_print_def body)
  have all: "Selector_print con self = (fst (print_header con (sel_header self)) @ listing, None)
      \<and> snd (Selector_print_choices con (sel_choices self) 1) =
        1 + int (length (concat (sel_choices self)))"
    if "snd (print_header con (sel_header self)) = None \<and> (\<forall>c\<in>set listing. con c = None)"
  proof -
    from that obtain head where "print_header con (sel_header self) = (head, None)"
      by (cases "print_header con (sel_header self)") auto
    moreover from that have "emit_all con listing = (listing, None)"
      by (simp add: emit_all_accepted)
    ultimately show ?thesis
      using counter by (simp add: eq then_print_ok)
  qed
  have some: "Selector_print con self = (fst (print_header con (sel_header self)) @ before, Some e)"
    if "snd (print_header con (sel_header self)) = None \<and> listing = before @ c # rest \<and>
       (\<forall>x\<in>set before. con x = None) \<and> con c = Some e" for before c rest e
  proof -
    from that obtain head where "print_header con (sel_header self) = (head, None)"
      by (cases "print_header con (sel_header self)") auto
    moreover from that have "emit_all con listing = (before, Some e)"
      by (simp add: emit_all_refused)
    ultimately show ?thesis
      by (simp add: eq then_print_ok)
  qed
  have dec: "(\<forall>ch\<in>set (py_str_int (1 + int j)). py_isdigit ch) \<and>
         hd (py_str_int (1 + int j)) \<noteq> CHR ''0'' \<and>
         foldl (\<lambda>a ch. 10 * a + py_digit_value ch) 0 (py_str_int (1 + int j)) = 1 + j" for j
    using py_str_int_decimal [of "1 + int j"] by simp
  show ?thesis
    using eq all some dec unfolding listing_def by blast
qed

theorem Selector_print_numbering_witness:
  "Selector_print (console_refusing []) \<lparr>sel_header = None,
      sel_choices = [[(''Start'', ''begin''), (''Load'', ''resume'')], [], [(''Quit'', ''leave'')]],
      sel_style = ''blue''\<rparr> =
   ([ConsolePrint ''[b]1. Start[/]'' None (Some False), ConsolePrint ''   begin'' None (Some False),
     ConsolePrint ''[b]2. Load[/]'' None (Some False), ConsolePrint ''   resume'' None (Some False),
     ConsolePrint ''[b]3. Quit[/]'' None (Some False), ConsolePrint ''   leave'' None (Some False)],
    None) \<and>
   py_str_int 10 = ''10'' \<and> py_str_int 123 = ''123''"
proof -
  define s where "s = \<lparr>sel_header = None,
      sel_choices = [[(''Start'', ''begin''), (''Load'', ''resume'')], [], [(''Quit'', ''leave'')]],
      sel_style = ''blue''\<rparr>"
  have wf: "\<forall>d\<in>set (sel_choices s). dict_wf d"
    by (simp add: s_def dict_wf_def)
  have n: "py_str_int 1 = ''1''" "py_str_int 2 = ''2''" "py_str_int 3 = ''3''"
    by (simp_all add: py_str_int_def py_str_nat.simps)
  have m: "py_str_int 10 = ''10''" "py_str_int 123 = ''123''"
    by (simp_all add: py_str_int_def py_str_nat.simps)
  have e: "enumerate 0 (concat (sel_choices s)) =
      [(0, ''Start'', ''begin''), (1, ''Load'', ''resume''), (2, ''Quit'', ''leave'')]"
    by (simp add: s_def)
  have h: "print_header (console_refusing []) (sel_header s) = ([], None)"
    by (simp add: s_def print_header_def)
  have "Selector_print (console_refusing []) s =
   ([ConsolePrint ''[b]1. Start[/]'' None (Some False), ConsolePrint ''   begin'' None (Some False),
     ConsolePrint ''[b]2. Load[/]'' None (Some False), ConsolePrint ''   resume'' None (Some False),
     ConsolePrint ''[b]3. Quit[/]'' None (Some False), ConsolePrint ''   leave'' None (Some False)],
    None)"
    using Selector_print_numbering [OF wf, of "console_refusing []", THEN conjunct2,
        THEN conjunct1, THEN mp]
    by (simp add: e n h console_refusing_nothing)
  then show ?thesis
    by (simp add: s_def m)
qed

text \<open>
  Not every selector gets all its pairs numbered: the key \<^verbatim>\<open>a[/]\<close> makes the first
  line \<^verbatim>\<open>[b]1. a[/][/]\<close>, whose last tag closes nothing, so that Rich raises
  \<^verbatim>\<open>MarkupError\<close> and the second choice is never printed.
\<close>

theorem Selector_print_unbalanced_markup:
  "Selector_print (console_refusing [''[b]1. a[/][/]''])
     \<lparr>sel_header = None, sel_choices = [[(''a[/]'', ''first'')], [(''b'', ''second'')]],
      sel_style = ''blue''\<rparr> = ([], Some MarkupError)"
  by (simp add: Selector_print_def print_header_def then_print_def emit_def dict_keys_def
      Selector_label_def console_refusing_def py_str_int_def py_str_nat.simps)

lemma Selector_ask_result:
  assumes "snd (if p then Selector_print con self else ([], None)) = None"
    and "con (ConsoleInput (''[b]['' @ sel_style self @ '']+[/][/] '')) = None"
  shows "snd (Selector_ask maxd con self p kb) =
    (case kb of
       Entered line \<Rightarrow>
         (case py_int maxd line of None \<Rightarrow> Inl ValueError | Some n \<Rightarrow> Inr (PyInt n))
     | Interrupt \<Rightarrow> Inr (PyBool False)
     | EndOfInput \<Rightarrow> Inl EOFError)"
proof -
  from assms(1) obtain printed where
    "(if p then Selector_print con self else ([], None)) = (printed, None)"
    by (cases "if p then Selector_print con self else ([], None)") auto
  with assms(2) show ?thesis
    by (simp add: Selector_ask_def emit_def)
qed

lemma Selector_ask_listing_raises:
  assumes "snd (if p then Selector_print con self else ([], None)) = Some e"
  shows "snd (Selector_ask maxd con self p kb) = Inl e"
proof -
  from assms obtain printed where
    "(if p then Selector_print con self else ([], None)) = (printed, Some e)"
    by (cases "if p then Selector_print con self else ([], None)") auto
  then show ?thesis
    by (simp add: Selector_ask_def)
qed

lemma Selector_ask_prompt_raises:
  assumes "snd (if p then Selector_print con self else ([], None)) = None"
    and "con (ConsoleInput (''[b]['' @ sel_style self @ '']+[/][/] '')) = Some e"
  shows "snd (Selector_ask maxd con self p kb) = Inl e"
proof -
  from assms(1) obtain printed where
    "(if p then Selector_print con self else ([], None)) = (printed, None)"
    by (cases "if p then Selector_print con self else ([], None)") auto
  with assms(2) show ?thesis
    by (simp add: Selector_ask_def emit_def)
qed

text \<open>
  C1 (as amended). When the console has written the listing (if asked for) and the
  prompt, \<^verbatim>\<open>Selector.ask\<close> returns the integer that \<^verbatim>\<open>int\<close> reads from the line
  entered, and lets the \<^verbatim>\<open>ValueError\<close> of a line that is no integer leave; on
  \<^verbatim>\<open>KeyboardInterrupt\<close> at the prompt it returns \<^verbatim>\<open>False\<close> and the interrupt does
  not leave. An exception of the console for the listing or the prompt leaves
  \<^verbatim>\<open>ask\<close> whatever the input. \<^verbatim>\<open>False\<close> is told apart from every integer result by
  \<^verbatim>\<open>is False\<close>; under \<^verbatim>\<open>==\<close> it differs from every integer result but 0.
\<close>

theorem Selector_ask_outcomes:
  "(snd (if p then Selector_print con self else ([], None)) = None \<and>
    con (ConsoleInput (''[b]['' @ sel_style self @ '']+[/][/] '')) = None \<longrightarrow>
      snd (Selector_ask maxd con self p (Entered line)) =
        (case py_int maxd line of None \<Rightarrow> Inl ValueError | Some n \<Rightarrow> Inr (PyInt n)) \<and>
      snd (Selector_ask maxd con self p Interrupt) = Inr (PyBool False)) \<and>
   (\<forall>e kb. snd (if p then Selector_print con self else ([], None)) = Some e \<longrightarrow>
      snd (Selector_ask maxd con self p kb) = Inl e) \<and>
   (\<forall>e kb. snd (if p then Selector_print con self else ([], None)) = None \<and>
      con (ConsoleInput (''[b]['' @ sel_style self @ '']+[/][/] '')) = Some e \<longrightarrow>
      snd (Selector_ask maxd con self p kb) = Inl e) \<and>
   py_is_False (PyBool False) \<and> \<not> py_is_False (PyInt n) \<and>
   py_eq (PyBool False) (PyInt n) = (n = 0)"
  by (simp add: Selector_ask_result Selector_ask_listing_raises Selector_ask_prompt_raises
      py_eq_def)

theorem Selector_ask_outcomes_witness:
  "snd (Selector_ask 4300 (console_refusing [])
          \<lparr>sel_header = None, sel_choices = [[(''Start'', ''begin'')]], sel_style = ''blue''\<rparr>
          True (Entered '' 12 '')) = Inr (PyInt 12) \<and>
   snd (Selector_ask 4300 (console_refusing [])
          \<lparr>sel_header = None, sel_choices = [[(''Start'', ''begin'')]], sel_style = ''blue''\<rparr>
          True (Entered ''one'')) = Inl ValueError \<and>
   snd (Selector_ask 4300 (console_refusing [])
          \<lparr>sel_header = None, sel_choices = [[(''Start'', ''begin'')]], sel_style = ''blue''\<rparr>
          True Interrupt) = Inr (PyBool False) \<and>
   snd (Selector_ask 4300 (console_refusing [''[b][Red]+[/][/] ''])
          \<lparr>sel_header = None, sel_choices = [[(''Start'', ''begin'')]], sel_style = ''Red''\<rparr>
          False (Entered ''5'')) = Inl MarkupError \<and>
   \<not> py_eq (PyBool False) (PyInt 12)"
proof -
  define s where
    "s = \<lparr>sel_header = None, sel_choices = [[(''Start'', ''begin'')]], sel_style = ''blue''\<rparr>"
  define r where
    "r = \<lparr>sel_header = None, sel_choices = [[(''Start'', ''begin'')]], sel_style = ''Red''\<rparr>"
  have a: "py_int 4300 '' 12 '' = Some 12"
    by (simp add: py_int_def py_strip_def py_isspace_def py_int_unsigned_def py_isdigit_def
        py_digit_value_def)
  have b: "py_int 4300 ''one'' = None"
    by (simp add: py_int_def py_strip_def py_isspace_def py_int_unsigned_def py_isdigit_def)
  have listing: "snd (if True then Selector_print (console_refusing []) s else ([], None)) = None"
    by (simp add: s_def Selector_print_def print_header_def then_print_def emit_def dict_keys_def
        dict_getitem_def console_refusing_nothing)
  have prompt: "console_refusing [] (ConsoleInput (''[b]['' @ sel_style s @ '']+[/][/] '')) = None"
    by (simp add: console_refusing_nothing)
  have ok: "snd (if True then Selector_print (console_refusing []) s else ([], None)) = None \<and>
      console_refusing [] (ConsoleInput (''[b]['' @ sel_style s @ '']+[/][/] '')) = None"
    using listing prompt by simp
  have 1: "snd (Selector_ask 4300 (console_refusing []) s True (Entered '' 12 '')) = Inr (PyInt 12)"
    using Selector_ask_outcomes [of True "console_refusing []" s 4300 "'' 12 ''" 12,
        THEN conjunct1, THEN mp, OF ok]
    by (simp add: a)
  have 2: "snd (Selector_ask 4300 (console_refusing []) s True (Entered ''one'')) = Inl ValueError"
    using Selector_ask_outcomes [of True "console_refusing []" s 4300 "''one''" 12,
        THEN conjunct1, THEN mp, OF ok]
    by (simp add: b)
  have 3: "snd (Selector_ask 4300 (console_refusing []) s True Interrupt) = Inr (PyBool False)"
    using Selector_ask_outcomes [of True "console_refusing []" s 4300 "''one''" 12,
        THEN conjunct1, THEN mp, OF ok]
    by simp
  have bad: "snd (if False then Selector_print (console_refusing [''[b][Red]+[/][/] '']) r
        else ([], None)) = None \<and>
      console_refusing [''[b][Red]+[/][/] '']
        (ConsoleInput (''[b]['' @ sel_style r @ '']+[/][/] '')) = Some MarkupError"
    by (simp add: r_def console_refusing_def)
  have 4: "snd (Selector_ask 4300 (console_refusing [''[b][Red]+[/][/] '']) r False
      (Entered ''5'')) = Inl MarkupError"
    using Selector_ask_outcomes [of False "console_refusing [''[b][Red]+[/][/] '']" r 4300
        "''5''" 12, THEN conjunct2, THEN conjunct2, THEN conjunct1, THEN spec, THEN spec,
        THEN mp, OF bad] .
  have 5: "\<not> py_eq (PyBool False) (PyInt 12)"
    using Selector_ask_outcomes [of True "console_refusing []" s 4300 "''one''" 12]
    by simp
  show ?thesis
    using 1 2 3 4 5 unfolding s_def r_def by simp
qed

text \<open>
  The result of a cancelled \<^verbatim>\<open>ask\<close> is not distinct from every integer result:
  \<^verbatim>\<open>False\<close> is an instance of \<^verbatim>\<open>int\<close>, equal to the result of the line
  \<^verbatim>\<open>0\<close> and as false as it.
\<close>

theorem Selector_ask_cancel_equals_zero:
  "snd (Selector_ask 4300 (console_refusing [])
          \<lparr>sel_header = None, sel_choices = [[(''Start'', ''begin'')]], sel_style = ''blue''\<rparr>
          False Interrupt) = Inr (PyBool False) \<and>
   snd (Selector_ask 4300 (console_refusing [])
          \<lparr>sel_header = None, sel_choices = [[(''Start'', ''begin'')]], sel_style = ''blue''\<rparr>
          False (Entered ''0'')) = Inr (PyInt 0) \<and>
   py_eq (PyBool False) (PyInt 0) \<and>
   py_isinstance_int (PyBool False) \<and>
   py_truthy (PyBool False) = py_truthy (PyInt 0)"
proof -
  have "py_int 4300 ''0'' = Some 0"
    by (simp add: py_int_def py_strip_def py_isspace_def py_int_unsigned_def py_isdigit_def
        py_digit_value_def)
  then show ?thesis
    by (simp add: Selector_ask_def emit_def console_refusing_def py_eq_def py_truthy_def)
qed


end
